theory Spec2Isabelle
  imports Main
begin

section \<open>String helpers of the host language\<close>

text \<open>
  Strings are character lists. The JavaScript built-ins the program calls are modelled on
  ASCII: \<open>toLowerCase\<close> maps \<open>A..Z\<close> to \<open>a..z\<close> and leaves every other
  character alone, and the whitespace class \<open>\s\<close> (also used by \<open>trim\<close>) is space,
  tab, line feed, vertical tab, form feed and carriage return.
\<close>

definition lowerChar :: "char \<Rightarrow> char" where
  "lowerChar c =
     (case map_of (zip ''ABCDEFGHIJKLMNOPQRSTUVWXYZ'' ''abcdefghijklmnopqrstuvwxyz'') c of
        Some d \<Rightarrow> d
      | None \<Rightarrow> c)"

definition toLowerCase :: "string \<Rightarrow> string" where
  "toLowerCase s = map lowerChar s"

definition isSpace :: "char \<Rightarrow> bool" where
  "isSpace c = (c \<in> set [CHR '' '', CHR 0x09, CHR 0x0A, CHR 0x0B, CHR 0x0C, CHR 0x0D])"

text \<open>\<^verbatim>\<open>s.replace(/\s+/g, "")\<close>: every whitespace character is removed.\<close>

definition removeWhitespace :: "string \<Rightarrow> string" where
  "removeWhitespace s = filter (\<lambda>c. \<not> isSpace c) s"

text \<open>
  \<^verbatim>\<open>s.replace(/ref$|id$|_ref$|_id$/i, "")\<close>. The regular expression engine tries the
  start positions from left to right and, at each one, the alternatives in the order
  written; every alternative is anchored at the end of the string, so a position matches
  when the rest of the string from there is one of the four words, compared without
  regard to case. The first matching position wins and the match is replaced by the
  empty string.
\<close>

definition suffixWords :: "string list" where
  "suffixWords = [''ref'', ''id'', ''_ref'', ''_id'']"

definition matchesAtEnd :: "string \<Rightarrow> bool" where
  "matchesAtEnd rest = (toLowerCase rest \<in> set suffixWords)"

fun stripRefIdSuffix :: "string \<Rightarrow> string" where
  "stripRefIdSuffix [] = []"
| "stripRefIdSuffix (c # cs) =
     (if matchesAtEnd (c # cs) then [] else c # stripRefIdSuffix cs)"

section \<open>Canonical schema model (types.ts)\<close>

text \<open>
  \<^verbatim>\<open>to?: { type: string }[]\<close> is a list of one-field objects; an optional property is
  an \<open>option\<close>, absent being \<open>None\<close>.
\<close>

datatype RefTarget = RefTarget (target_type: string)

datatype SchemaField =
  SchemaField
    (f_type: string)
    (f_name: "string option")
    (f_title: "string option")
    (f_fields: "SchemaField list option")
    (f_of: "SchemaField list option")
    (f_to: "RefTarget list option")

record SchemaType =
  t_name :: string
  t_type :: string
  t_title :: "string option"
  t_fields :: "SchemaField list option"
  t_of :: "SchemaField list option"

record ParsedSchema =
  types :: "SchemaType list"
  documentTypes :: "string set"
  allTypeNames :: "string set"

section \<open>Type registry (BaseSchemaParser.createParsedSchema)\<close>

definition createParsedSchema ::
  "SchemaType list \<Rightarrow> (SchemaType \<Rightarrow> bool) \<Rightarrow> ParsedSchema" where
  "createParsedSchema ts documentTypeFilter =
     \<lparr> types = ts,
       documentTypes = set (map t_name (filter documentTypeFilter ts)),
       allTypeNames = set (map t_name ts) \<rparr>"

text \<open>The default filter, also the one both parsers pass explicitly.\<close>

definition isDocument :: "SchemaType \<Rightarrow> bool" where
  "isDocument t = (t_type t = ''document'')"

section \<open>Graph converter (converter/graph-converter.ts)\<close>

text \<open>
  The keys of \<^verbatim>\<open>CONFIG.RELATIONSHIP_CONFIGS\<close>. The style object handed to the graph
  library is one of these attribute sets plus the \<^verbatim>\<open>xlabel\<close>.
\<close>

datatype RelationshipConfig =
  DIRECT_REFERENCE
| INFERRED_REFERENCE
| ARRAY_REFERENCE
| INFERRED_ARRAY_REFERENCE
| OBJECT_COMPOSITION
| ARRAY_COMPOSITION

record EdgeStyle =
  relationship :: RelationshipConfig
  xlabel :: string

text \<open>
  An emitted edge keeps the arguments \<^verbatim>\<open>createEdgeIfNotExists\<close> was called with; the
  two endpoints given to the graph library are derived from them
  (\<open>sourceNode\<close>, \<open>targetNode\<close>).
\<close>

record Edge =
  e_source :: string
  e_target :: string
  e_label :: string
  e_style :: EdgeStyle
  e_sourcePort :: "string option"

definition sourceNode :: "Edge \<Rightarrow> string" where
  "sourceNode e =
     (case e_sourcePort e of
        Some p \<Rightarrow> if p \<noteq> [] then e_source e @ '':'' @ p else e_source e @ '':title''
      | None \<Rightarrow> e_source e @ '':title'')"

definition targetNode :: "Edge \<Rightarrow> string" where
  "targetNode e = e_target e @ '':title''"

text \<open>
  A node is the data its HTML-like label is printed from: the type name, whether it is
  in \<open>documentTypes\<close> (icon and header colour), and one row per visible field.
\<close>

record Node =
  n_id :: string
  n_isDocument :: bool
  n_rows :: "(string \<times> string) list"

record Digraph =
  nodes :: "Node list"
  edges :: "Edge list"

record GraphConverter =
  schema :: ParsedSchema
  graph :: Digraph
  createdEdges :: "string set"

text \<open>The constructor: an empty graph and an empty set of edge keys.\<close>

definition newGraphConverter :: "ParsedSchema \<Rightarrow> GraphConverter" where
  "newGraphConverter s =
     \<lparr> schema = s, graph = \<lparr> nodes = [], edges = [] \<rparr>, createdEdges = {} \<rparr>"

text \<open>
  \<^verbatim>\<open>graph.node(id, attributes)\<close> of the graph library creates the node when the id
  is new and otherwise applies the attributes to the existing node, in place.
\<close>

fun upsertNode :: "Node \<Rightarrow> Node list \<Rightarrow> Node list" where
  "upsertNode n [] = [n]"
| "upsertNode n (m # ms) = (if n_id m = n_id n then n # ms else m # upsertNode n ms)"

definition joinWith :: "string \<Rightarrow> string list \<Rightarrow> string" where
  "joinWith sep xs = (case xs of [] \<Rightarrow> [] | y # ys \<Rightarrow> y @ concat (map (\<lambda>z. sep @ z) ys))"

fun getFieldTypeLabel :: "SchemaField \<Rightarrow> string" where
  "getFieldTypeLabel (SchemaField ty nm ti fs ofs tos) =
     (if ty = ''array'' \<and> ofs \<noteq> None then
        (case ofs of
           Some items \<Rightarrow> ''Array&lt;'' @ joinWith '' | '' (map getFieldTypeLabel items) @ ''&gt;''
         | None \<Rightarrow> ty)
      else if ty = ''reference'' \<and> tos \<noteq> None then
        (case tos of
           Some ts \<Rightarrow> ''Ref&lt;'' @ joinWith '' | '' (map target_type ts) @ ''&gt;''
         | None \<Rightarrow> ty)
      else ty)"

definition startsWithUnderscore :: "string option \<Rightarrow> bool" where
  "startsWithUnderscore nm = (case nm of Some (c # cs) \<Rightarrow> c = CHR ''_'' | _ \<Rightarrow> False)"

definition createNode :: "SchemaType \<Rightarrow> GraphConverter \<Rightarrow> GraphConverter" where
  "createNode ty c =
     (let rows =
            (case t_fields ty of
               Some fs \<Rightarrow>
                 map (\<lambda>field.
                        ((case f_name field of
                            Some n \<Rightarrow> if n \<noteq> [] then n else ''unnamed''
                          | None \<Rightarrow> ''unnamed''),
                         getFieldTypeLabel field))
                     (filter (\<lambda>field. \<not> startsWithUnderscore (f_name field)) fs)
             | None \<Rightarrow> []);
          n = \<lparr> n_id = t_name ty,
                n_isDocument = (t_name ty \<in> documentTypes (schema c)),
                n_rows = rows \<rparr>
      in c\<lparr> graph := (graph c)\<lparr> nodes := upsertNode n (nodes (graph c)) \<rparr> \<rparr>)"

definition edgeKey :: "string \<Rightarrow> string \<Rightarrow> string \<Rightarrow> string" where
  "edgeKey source target label = source @ ''->'' @ target @ '':'' @ label"

definition createEdgeIfNotExists ::
  "string \<Rightarrow> string \<Rightarrow> string \<Rightarrow> EdgeStyle \<Rightarrow> string option \<Rightarrow> GraphConverter \<Rightarrow> GraphConverter"
  where
  "createEdgeIfNotExists source target label style sourcePort c =
     (if edgeKey source target label \<notin> createdEdges c then
        c\<lparr> createdEdges := insert (edgeKey source target label) (createdEdges c),
           graph := (graph c)\<lparr> edges := edges (graph c) @
                      [\<lparr> e_source = source, e_target = target, e_label = label,
                         e_style = style, e_sourcePort = sourcePort \<rparr>] \<rparr> \<rparr>
      else c)"

definition isGraphType :: "SchemaType \<Rightarrow> bool" where
  "isGraphType t = (t_type t = ''document'' \<or> t_type t = ''object'')"

definition findPossibleReferenceTargets ::
  "ParsedSchema \<Rightarrow> string \<Rightarrow> string option \<Rightarrow> string list" where
  "findPossibleReferenceTargets s fieldName fieldTitle =
     (let targets0 = [];
          targets1 =
            (if fieldName \<in> allTypeNames s then
               (case find (\<lambda>t. t_name t = fieldName) (types s) of
                  Some sc \<Rightarrow> if isGraphType sc then targets0 @ [fieldName] else targets0
                | None \<Rightarrow> targets0)
             else targets0);
          targets2 =
            (case fieldTitle of
               Some ti \<Rightarrow>
                 if ti \<noteq> [] \<and> toLowerCase ti \<in> allTypeNames s then
                   (case find (\<lambda>t. t_name t = toLowerCase ti) (types s) of
                      Some sc \<Rightarrow> if isGraphType sc then targets1 @ [toLowerCase ti] else targets1
                    | None \<Rightarrow> targets1)
                 else targets1
             | None \<Rightarrow> targets1);
          cleanName = stripRefIdSuffix fieldName
      in if cleanName \<noteq> fieldName \<and> cleanName \<in> allTypeNames s then
           (case find (\<lambda>t. t_name t = cleanName) (types s) of
              Some sc \<Rightarrow> if isGraphType sc then targets2 @ [cleanName] else targets2
            | None \<Rightarrow> targets2)
         else targets2)"

text \<open>The port every call site passes: the west side of the field's left cell.\<close>

definition leftPort :: "string \<Rightarrow> string option" where
  "leftPort sourceFieldId = Some (sourceFieldId @ ''_left:w'')"

definition processArrayItemForEdges ::
  "string \<Rightarrow> string \<Rightarrow> SchemaField \<Rightarrow> GraphConverter \<Rightarrow> GraphConverter" where
  "processArrayItemForEdges sourceNodeId sourceFieldId itemType c0 =
     (let c1 =
            (if f_type itemType = ''reference'' then
               (case f_to itemType of
                  Some (t # ts) \<Rightarrow>
                    fold (\<lambda>target c.
                            if target_type target \<in> allTypeNames (schema c) then
                              (case find (\<lambda>t. t_name t = target_type target) (types (schema c)) of
                                 Some targetSchema \<Rightarrow>
                                   if isGraphType targetSchema then
                                     createEdgeIfNotExists sourceNodeId (target_type target)
                                       (sourceFieldId @ ''[]'')
                                       \<lparr> relationship = ARRAY_REFERENCE,
                                         xlabel = sourceFieldId @ ''[]'' \<rparr>
                                       (leftPort sourceFieldId) c
                                   else c
                               | None \<Rightarrow> c)
                            else c)
                         (t # ts) c0
                | _ \<Rightarrow>
                    fold (\<lambda>targetType c.
                            createEdgeIfNotExists sourceNodeId targetType
                              (sourceFieldId @ ''[]?'')
                              \<lparr> relationship = INFERRED_ARRAY_REFERENCE,
                                xlabel = sourceFieldId @ ''[]?'' \<rparr>
                              (leftPort sourceFieldId) c)
                         (findPossibleReferenceTargets (schema c0) sourceFieldId (f_title itemType))
                         c0)
             else c0)
      in (case f_name itemType of
            Some n \<Rightarrow>
              if f_type itemType = ''object'' \<and> n \<noteq> [] then
                (case find (\<lambda>t. t_name t = n \<and> t_type t = ''object'') (types (schema c1)) of
                   Some objectType \<Rightarrow>
                     createEdgeIfNotExists sourceNodeId (t_name objectType)
                       (sourceFieldId @ ''[]'')
                       \<lparr> relationship = ARRAY_COMPOSITION, xlabel = sourceFieldId @ ''[]'' \<rparr>
                       (leftPort sourceFieldId) c1
                 | None \<Rightarrow> c1)
              else c1
          | None \<Rightarrow> c1))"

definition processFieldForEdges ::
  "string \<Rightarrow> string \<Rightarrow> SchemaField \<Rightarrow> GraphConverter \<Rightarrow> GraphConverter" where
  "processFieldForEdges sourceNodeId sourceFieldId field c0 =
     (let c1 =
            (if f_type field = ''reference'' then
               (case f_to field of
                  Some (t # ts) \<Rightarrow>
                    fold (\<lambda>target c.
                            if target_type target \<in> allTypeNames (schema c) then
                              (case find (\<lambda>t. t_name t = target_type target) (types (schema c)) of
                                 Some targetSchema \<Rightarrow>
                                   if isGraphType targetSchema then
                                     createEdgeIfNotExists sourceNodeId (target_type target)
                                       sourceFieldId
                                       \<lparr> relationship = DIRECT_REFERENCE, xlabel = sourceFieldId \<rparr>
                                       (leftPort sourceFieldId) c
                                   else c
                               | None \<Rightarrow> c)
                            else c)
                         (t # ts) c0
                | _ \<Rightarrow>
                    fold (\<lambda>targetType c.
                            createEdgeIfNotExists sourceNodeId targetType
                              (sourceFieldId @ ''?'')
                              \<lparr> relationship = INFERRED_REFERENCE, xlabel = sourceFieldId @ ''?'' \<rparr>
                              (leftPort sourceFieldId) c)
                         (findPossibleReferenceTargets (schema c0) sourceFieldId (f_title field))
                         c0)
             else c0);
          c2 =
            (case f_name field of
               Some n \<Rightarrow>
                 if f_type field = ''object'' \<and> n \<noteq> [] then
                   (case find (\<lambda>t. t_name t = n \<and> t_type t = ''object'') (types (schema c1)) of
                      Some objectType \<Rightarrow>
                        createEdgeIfNotExists sourceNodeId (t_name objectType) sourceFieldId
                          \<lparr> relationship = OBJECT_COMPOSITION, xlabel = sourceFieldId \<rparr>
                          (leftPort sourceFieldId) c1
                    | None \<Rightarrow> c1)
                 else c1
             | None \<Rightarrow> c1)
      in (case f_of field of
            Some items \<Rightarrow>
              if f_type field = ''array'' then
                fold (\<lambda>itemType c. processArrayItemForEdges sourceNodeId sourceFieldId itemType c)
                     items c2
              else c2
          | None \<Rightarrow> c2))"

definition createEdges :: "SchemaType \<Rightarrow> GraphConverter \<Rightarrow> GraphConverter" where
  "createEdges sourceType c0 =
     (case t_fields sourceType of
        None \<Rightarrow> c0
      | Some fs \<Rightarrow>
          fold (\<lambda>field c.
                  (case f_name field of
                     None \<Rightarrow> c
                   | Some n \<Rightarrow>
                       if n = [] then c
                       else processFieldForEdges (t_name sourceType) n field c))
               fs c0)"

text \<open>
  \<^verbatim>\<open>convert\<close>: nodes for every document and object type, then edges for the same
  types, both in the order of \<open>schema.types\<close>. The result is the converter with its
  finished graph; printing the graph as DOT text is the graph library's work.
\<close>

definition convert :: "GraphConverter \<Rightarrow> GraphConverter" where
  "convert c0 =
     (let c1 = fold (\<lambda>ty c. if isGraphType ty then createNode ty c else c)
                    (types (schema c0)) c0
      in fold (\<lambda>ty c. if isGraphType ty then createEdges ty c else c)
              (types (schema c1)) c1)"

section \<open>Candidate edges\<close>

definition knownGraphType :: "ParsedSchema \<Rightarrow> string \<Rightarrow> bool" where
  "knownGraphType s n =
     (n \<in> allTypeNames s \<and>
      (case find (\<lambda>t. t_name t = n) (types s) of
         Some sc \<Rightarrow> isGraphType sc
       | None \<Rightarrow> False))"

definition mkEdge ::
  "string \<Rightarrow> string \<Rightarrow> string \<Rightarrow> RelationshipConfig \<Rightarrow> string \<Rightarrow> Edge" where
  "mkEdge source target label rel sourceFieldId =
     \<lparr> e_source = source, e_target = target, e_label = label,
       e_style = \<lparr> relationship = rel, xlabel = label \<rparr>,
       e_sourcePort = leftPort sourceFieldId \<rparr>"

definition arrayItemCandidates ::
  "ParsedSchema \<Rightarrow> string \<Rightarrow> string \<Rightarrow> SchemaField \<Rightarrow> Edge list" where
  "arrayItemCandidates s src fid item =
     (if f_type item = ''reference'' then
        (case f_to item of
           Some (t # ts) \<Rightarrow>
             map (\<lambda>tg. mkEdge src (target_type tg) (fid @ ''[]'') ARRAY_REFERENCE fid)
                 (filter (\<lambda>tg. knownGraphType s (target_type tg)) (t # ts))
         | _ \<Rightarrow>
             map (\<lambda>n. mkEdge src n (fid @ ''[]?'') INFERRED_ARRAY_REFERENCE fid)
                 (findPossibleReferenceTargets s fid (f_title item)))
      else [])
     @
     (case f_name item of
        Some n \<Rightarrow>
          if f_type item = ''object'' \<and> n \<noteq> [] then
            (case find (\<lambda>t. t_name t = n \<and> t_type t = ''object'') (types s) of
               Some ot \<Rightarrow> [mkEdge src (t_name ot) (fid @ ''[]'') ARRAY_COMPOSITION fid]
             | None \<Rightarrow> [])
          else []
      | None \<Rightarrow> [])"

definition fieldCandidates ::
  "ParsedSchema \<Rightarrow> string \<Rightarrow> string \<Rightarrow> SchemaField \<Rightarrow> Edge list" where
  "fieldCandidates s src fid field =
     (if f_type field = ''reference'' then
        (case f_to field of
           Some (t # ts) \<Rightarrow>
             map (\<lambda>tg. mkEdge src (target_type tg) fid DIRECT_REFERENCE fid)
                 (filter (\<lambda>tg. knownGraphType s (target_type tg)) (t # ts))
         | _ \<Rightarrow>
             map (\<lambda>n. mkEdge src n (fid @ ''?'') INFERRED_REFERENCE fid)
                 (findPossibleReferenceTargets s fid (f_title field)))
      else [])
     @
     (case f_name field of
        Some n \<Rightarrow>
          if f_type field = ''object'' \<and> n \<noteq> [] then
            (case find (\<lambda>t. t_name t = n \<and> t_type t = ''object'') (types s) of
               Some ot \<Rightarrow> [mkEdge src (t_name ot) fid OBJECT_COMPOSITION fid]
             | None \<Rightarrow> [])
          else []
      | None \<Rightarrow> [])
     @
     (case f_of field of
        Some items \<Rightarrow>
          if f_type field = ''array'' then concat (map (arrayItemCandidates s src fid) items)
          else []
      | None \<Rightarrow> [])"

definition typeCandidates :: "ParsedSchema \<Rightarrow> SchemaType \<Rightarrow> Edge list" where
  "typeCandidates s ty =
     (case t_fields ty of
        None \<Rightarrow> []
      | Some fs \<Rightarrow>
          concat (map (\<lambda>field.
                         (case f_name field of
                            None \<Rightarrow> []
                          | Some n \<Rightarrow>
                              if n = [] then [] else fieldCandidates s (t_name ty) n field))
                      fs))"

definition candidateEdges :: "ParsedSchema \<Rightarrow> Edge list" where
  "candidateEdges s = concat (map (typeCandidates s) (filter isGraphType (types s)))"

definition emit :: "Edge \<Rightarrow> GraphConverter \<Rightarrow> GraphConverter" where
  "emit e c =
     createEdgeIfNotExists (e_source e) (e_target e) (e_label e) (e_style e) (e_sourcePort e) c"

definition edgeTriple :: "Edge \<Rightarrow> string \<times> string \<times> string" where
  "edgeTriple e = (e_source e, e_target e, e_label e)"

definition keyOf :: "Edge \<Rightarrow> string" where
  "keyOf e = edgeKey (e_source e) (e_target e) (e_label e)"

fun keepFirst :: "string set \<Rightarrow> Edge list \<Rightarrow> Edge list" where
  "keepFirst seen [] = []"
| "keepFirst seen (e # es) =
     (if keyOf e \<in> seen then keepFirst seen es
      else e # keepFirst (insert (keyOf e) seen) es)"

section \<open>The resolver's heuristic, as a filter\<close>

text \<open>
  The names \<^verbatim>\<open>findPossibleReferenceTargets\<close> tries, in the order it tries them: the
  field name; the title in lower case, when there is a non-empty title; the field name
  without its suffix, when stripping changed it.
\<close>

definition candidateNames :: "string \<Rightarrow> string option \<Rightarrow> string list" where
  "candidateNames fieldName fieldTitle =
     [fieldName]
     @ (case fieldTitle of
          Some ti \<Rightarrow> if ti \<noteq> [] then [toLowerCase ti] else []
        | None \<Rightarrow> [])
     @ (if stripRefIdSuffix fieldName \<noteq> fieldName then [stripRefIdSuffix fieldName] else [])"



section \<open>The eager inference of the schema.club normalizer\<close>

text \<open>
  \<^verbatim>\<open>SchemaClubParser.inferReferenceTarget\<close> of the single-file program. The array of
  patterns holds strings and \<^verbatim>\<open>null\<close>s; \<^verbatim>\<open>filter(Boolean)\<close> drops the
  \<^verbatim>\<open>null\<close>s and the empty strings, \<^verbatim>\<open>find\<close> takes the first pattern left.
\<close>

definition endsWith_s :: "string \<Rightarrow> bool" where
  "endsWith_s x = (x \<noteq> [] \<and> last x = CHR ''s'')"

definition truthyString :: "string option \<Rightarrow> bool" where
  "truthyString p = (case p of Some x \<Rightarrow> x \<noteq> [] | None \<Rightarrow> False)"

definition inferReferenceTarget :: "string \<Rightarrow> string option \<Rightarrow> string option" where
  "inferReferenceTarget fieldName fieldTitle =
     (let patterns =
            filter truthyString
              [Some (stripRefIdSuffix fieldName),
               (case fieldTitle of
                  Some ti \<Rightarrow>
                    if ti \<noteq> [] then Some (removeWhitespace (toLowerCase ti)) else None
                | None \<Rightarrow> None),
               Some fieldName,
               (if endsWith_s fieldName then Some (butlast fieldName) else None)]
      in (case find (\<lambda>pattern.
                       (case pattern of Some x \<Rightarrow> x \<noteq> [] \<and> 0 < length x | None \<Rightarrow> False))
                    patterns of
            Some (Some x) \<Rightarrow> Some x
          | _ \<Rightarrow> None))"


section \<open>The schema.club normalizer of the single-file program\<close>

text \<open>
  The entries of the parsed file, before normalization. Every property may be absent;
  a property that is present has the type the interface of \<^verbatim>\<open>types.ts\<close> gives it.
\<close>

datatype RawField =
  RawField
    (r_name: "string option")
    (r_type: "string option")
    (r_title: "string option")
    (r_fields: "RawField list option")
    (r_of: "RawField list option")
    (r_to: "RefTarget list option")

record RawType =
  rt_name :: "string option"
  rt_type :: "string option"
  rt_title :: "string option"
  rt_fields :: "RawField list option"

text \<open>\<^verbatim>\<open>.filter(Boolean)\<close> after a \<^verbatim>\<open>map\<close> whose results are objects or \<^verbatim>\<open>null\<close>.\<close>

primrec filterBoolean :: "'a option list \<Rightarrow> 'a list" where
  "filterBoolean [] = []"
| "filterBoolean (x # xs) = (case x of Some y \<Rightarrow> y # filterBoolean xs | None \<Rightarrow> filterBoolean xs)"

text \<open>
  \<^verbatim>\<open>transformSchemaClubField\<close>. The input's own \<^verbatim>\<open>to\<close> is never read: a reference
  field gets the inferred target as its only explicit target.
\<close>

fun transformSchemaClubField :: "RawField \<Rightarrow> SchemaField option" where
  "transformSchemaClubField (RawField nm ty ti fs ofs tos) =
     (if \<not> truthyString nm \<or> \<not> truthyString ty then None
      else
        (case (nm, ty) of
           (Some n, Some t) \<Rightarrow>
             Some (SchemaField t (Some n) ti
                     (case fs of
                        Some subFields \<Rightarrow>
                          Some (filterBoolean (map transformSchemaClubField subFields))
                      | None \<Rightarrow> None)
                     (if t = ''array'' then
                        (case ofs of
                           Some items \<Rightarrow>
                             Some (filterBoolean (map transformSchemaClubField items))
                         | None \<Rightarrow> None)
                      else None)
                     (if t = ''reference'' then
                        (case inferReferenceTarget n ti of
                           Some possibleTarget \<Rightarrow> Some [RefTarget possibleTarget]
                         | None \<Rightarrow> None)
                      else None))
         | _ \<Rightarrow> None))"

text \<open>
  \<^verbatim>\<open>transformSchemaClubType\<close>. \<^verbatim>\<open>parse\<close> calls it only on entries whose name and
  type passed the filter, so both are present there; an absent one reads as the empty
  string here.
\<close>

definition transformSchemaClubType :: "RawType \<Rightarrow> SchemaType" where
  "transformSchemaClubType schemaClubType =
     \<lparr> t_name = (case rt_name schemaClubType of Some n \<Rightarrow> n | None \<Rightarrow> []),
       t_type = (case rt_type schemaClubType of Some t \<Rightarrow> t | None \<Rightarrow> []),
       t_title = rt_title schemaClubType,
       t_fields =
         (case rt_fields schemaClubType of
            Some fs \<Rightarrow> Some (filterBoolean (map transformSchemaClubField fs))
          | None \<Rightarrow> None),
       t_of = None \<rparr>"

text \<open>
  The body of \<^verbatim>\<open>SchemaClubParser.parse\<close> of the single-file program, once the file is
  read and its root is known to be an array.
\<close>

definition transformSchemaClub :: "RawType list \<Rightarrow> ParsedSchema" where
  "transformSchemaClub rawSchema =
     createParsedSchema
       (map transformSchemaClubType
          (filter (\<lambda>item. truthyString (rt_name item) \<and> truthyString (rt_type item)) rawSchema))
       (\<lambda>ty. t_type ty = ''document'')"

section \<open>Reading the schema file (parsers/base-parser.ts)\<close>

text \<open>
  What \<^verbatim>\<open>JSON.parse\<close> and \<^verbatim>\<open>eval\<close> return is a value of the host language, of any
  shape. Numbers carry no arithmetic here, and an object is the list of its properties.
\<close>

datatype jsval =
  JUndefined
| JNull
| JBool bool
| JNum int
| JStr string
| JArr "jsval list"
| JObj "(string \<times> jsval) list"

text \<open>
  The program raises \<^verbatim>\<open>Error\<close> objects, told apart by their message only; the engine
  raises a \<^verbatim>\<open>TypeError\<close> when a property of \<^verbatim>\<open>null\<close> or \<^verbatim>\<open>undefined\<close> is read
  (kept here with the name of the property). A built-in throws an \<^verbatim>\<open>Error\<close> with a
  message or, for \<^verbatim>\<open>eval\<close>, any other value.
\<close>

datatype error = Error string | TypeError string

datatype thrown = ErrorObject string | OtherValue

text \<open>The names the specification gives to the program's errors.\<close>

definition UnrecognizedFormat :: error where
  "UnrecognizedFormat = Error ''Schema.club format expects an array of schema types''"

definition ParseFailure :: "string \<Rightarrow> error" where
  "ParseFailure errorMsg = Error (''Failed to parse schema file: '' @ errorMsg)"

definition NotImplemented :: error where
  "NotImplemented = Error ''Sanity format parser not yet implemented. Coming soon!''"

text \<open>
  The collaborators of the parsers: the file system (\<open>None\<close> when
  \<^verbatim>\<open>fs.existsSync\<close> is false), \<^verbatim>\<open>JSON.parse\<close> and \<^verbatim>\<open>eval\<close>, each a function of the
  text it is given that returns a value or throws.
\<close>

record Env =
  readFile :: "string \<Rightarrow> string option"
  JSON_parse :: "string \<Rightarrow> thrown + jsval"
  evalSource :: "string \<Rightarrow> thrown + jsval"

definition loadFileContent :: "Env \<Rightarrow> string \<Rightarrow> error + string" where
  "loadFileContent env schemaPath =
     (case readFile env schemaPath of
        None \<Rightarrow> Inl (Error (''Schema file not found at '' @ schemaPath))
      | Some content \<Rightarrow> Inr content)"

definition trim :: "string \<Rightarrow> string" where
  "trim s = rev (dropWhile isSpace (rev (dropWhile isSpace s)))"

definition startsWith :: "string \<Rightarrow> string \<Rightarrow> bool" where
  "startsWith p s = (take (length p) s = p)"

definition endsWith :: "string \<Rightarrow> string \<Rightarrow> bool" where
  "endsWith p s = (length p \<le> length s \<and> drop (length s - length p) s = p)"

definition errorMessage :: "thrown \<Rightarrow> string" where
  "errorMessage jsonError =
     (case jsonError of
        ErrorObject message \<Rightarrow> message
      | OtherValue \<Rightarrow> ''Unknown JSON parse error'')"

text \<open>
  The inner \<^verbatim>\<open>try\<close> block of \<^verbatim>\<open>parseJsonOrJs\<close>: evaluate the text as a literal when
  it looks like an array, and throw otherwise.
\<close>

definition evalFallback :: "Env \<Rightarrow> string \<Rightarrow> thrown + jsval" where
  "evalFallback env content =
     (if startsWith ''['' (trim content) \<and> endsWith '']'' (trim content)
      then evalSource env (''('' @ content @ '')'')
      else Inl (ErrorObject ''Schema file format not recognized''))"

definition parseJsonOrJs :: "Env \<Rightarrow> string \<Rightarrow> error + jsval" where
  "parseJsonOrJs env content =
     (case JSON_parse env content of
        Inr parsed \<Rightarrow> Inr parsed
      | Inl jsonError \<Rightarrow>
          (case evalFallback env content of
             Inr parsed \<Rightarrow> Inr parsed
           | Inl evalError \<Rightarrow> Inl (ParseFailure (errorMessage jsonError))))"

text \<open>Reading a property: a \<^verbatim>\<open>TypeError\<close> on \<^verbatim>\<open>null\<close> and \<^verbatim>\<open>undefined\<close>.\<close>

definition getProperty :: "jsval \<Rightarrow> string \<Rightarrow> error + jsval" where
  "getProperty v k =
     (case v of
        JUndefined \<Rightarrow> Inl (TypeError k)
      | JNull \<Rightarrow> Inl (TypeError k)
      | JObj props \<Rightarrow> Inr (case map_of props k of Some x \<Rightarrow> x | None \<Rightarrow> JUndefined)
      | _ \<Rightarrow> Inr JUndefined)"

text \<open>
  \<^verbatim>\<open>Array.prototype.filter\<close> and \<^verbatim>\<open>map\<close> with a callback that may throw: the first
  throw ends the call.
\<close>

fun filterE :: "('a \<Rightarrow> error + bool) \<Rightarrow> 'a list \<Rightarrow> error + 'a list" where
  "filterE p [] = Inr []"
| "filterE p (x # xs) =
     (case p x of
        Inl e \<Rightarrow> Inl e
      | Inr keep \<Rightarrow>
          (case filterE p xs of
             Inl e \<Rightarrow> Inl e
           | Inr ys \<Rightarrow> Inr (if keep then x # ys else ys)))"

fun mapE :: "('a \<Rightarrow> error + 'b) \<Rightarrow> 'a list \<Rightarrow> error + 'b list" where
  "mapE f [] = Inr []"
| "mapE f (x # xs) =
     (case f x of
        Inl e \<Rightarrow> Inl e
      | Inr y \<Rightarrow> (case mapE f xs of Inl e \<Rightarrow> Inl e | Inr ys \<Rightarrow> Inr (y # ys)))"

text \<open>
  \<^verbatim>\<open>createParsedSchema\<close> as it runs on the parsed file: the parser hands it the root
  array as it is (\<^verbatim>\<open>const types: SchemaType[] = rawSchema\<close> checks nothing), so the
  entries are values of any shape.
\<close>

record AnyParsedSchema =
  any_types :: "jsval list"
  any_documentTypes :: "jsval set"
  any_allTypeNames :: "jsval set"

definition isDocument_any :: "jsval \<Rightarrow> error + bool" where
  "isDocument_any t =
     (case getProperty t ''type'' of Inl e \<Rightarrow> Inl e | Inr v \<Rightarrow> Inr (v = JStr ''document''))"

definition createParsedSchema_any ::
  "jsval list \<Rightarrow> (jsval \<Rightarrow> error + bool) \<Rightarrow> error + AnyParsedSchema" where
  "createParsedSchema_any ts documentTypeFilter =
     (case filterE documentTypeFilter ts of
        Inl e \<Rightarrow> Inl e
      | Inr docs \<Rightarrow>
          (case mapE (\<lambda>t. getProperty t ''name'') docs of
             Inl e \<Rightarrow> Inl e
           | Inr docNames \<Rightarrow>
               (case mapE (\<lambda>t. getProperty t ''name'') ts of
                  Inl e \<Rightarrow> Inl e
                | Inr names \<Rightarrow>
                    Inr \<lparr> any_types = ts,
                          any_documentTypes = set docNames,
                          any_allTypeNames = set names \<rparr>)))"

section \<open>The parsers (parsers/schema-club-parser.ts, sanity-parser.ts, index.ts)\<close>


definition SchemaClubParser_parse :: "Env \<Rightarrow> string \<Rightarrow> error + AnyParsedSchema" where
  "SchemaClubParser_parse env schemaPath =
     (case loadFileContent env schemaPath of
        Inl e \<Rightarrow> Inl e
      | Inr content \<Rightarrow>
          (case parseJsonOrJs env content of
             Inl e \<Rightarrow> Inl e
           | Inr rawSchema \<Rightarrow>
               (case rawSchema of
                  JArr ts \<Rightarrow> createParsedSchema_any ts isDocument_any
                | _ \<Rightarrow> Inl UnrecognizedFormat)))"

definition SanityParser_parse :: "Env \<Rightarrow> string \<Rightarrow> error + AnyParsedSchema" where
  "SanityParser_parse env schemaPath = Inl NotImplemented"

text \<open>The two subclasses of \<^verbatim>\<open>BaseSchemaParser\<close>, each holding its \<^verbatim>\<open>schemaPath\<close>.\<close>

datatype BaseSchemaParser = SchemaClubParser string | SanityParser string

definition parse :: "Env \<Rightarrow> BaseSchemaParser \<Rightarrow> error + AnyParsedSchema" where
  "parse env parser =
     (case parser of
        SchemaClubParser schemaPath \<Rightarrow> SchemaClubParser_parse env schemaPath
      | SanityParser schemaPath \<Rightarrow> SanityParser_parse env schemaPath)"


section \<open>Canonical types as parsed values\<close>

text \<open>
  The value \<^verbatim>\<open>JSON.parse\<close> returns for a type that conforms to the interfaces of
  \<^verbatim>\<open>types.ts\<close>: an object with the properties that are present.
\<close>

fun encodeField :: "SchemaField \<Rightarrow> jsval" where
  "encodeField (SchemaField ty nm ti fs ofs tos) =
     JObj ([(''type'', JStr ty)]
           @ (case nm of Some n \<Rightarrow> [(''name'', JStr n)] | None \<Rightarrow> [])
           @ (case ti of Some t \<Rightarrow> [(''title'', JStr t)] | None \<Rightarrow> [])
           @ (case fs of Some l \<Rightarrow> [(''fields'', JArr (map encodeField l))] | None \<Rightarrow> [])
           @ (case ofs of Some l \<Rightarrow> [(''of'', JArr (map encodeField l))] | None \<Rightarrow> [])
           @ (case tos of
                Some l \<Rightarrow>
                  [(''to'', JArr (map (\<lambda>t. JObj [(''type'', JStr (target_type t))]) l))]
              | None \<Rightarrow> []))"

definition encodeType :: "SchemaType \<Rightarrow> jsval" where
  "encodeType t =
     JObj ([(''name'', JStr (t_name t)), (''type'', JStr (t_type t))]
           @ (case t_title t of Some ti \<Rightarrow> [(''title'', JStr ti)] | None \<Rightarrow> [])
           @ (case t_fields t of
                Some l \<Rightarrow> [(''fields'', JArr (map encodeField l))]
              | None \<Rightarrow> [])
           @ (case t_of t of Some l \<Rightarrow> [(''of'', JArr (map encodeField l))] | None \<Rightarrow> []))"

section \<open>Example schemas\<close>

definition tagType :: SchemaType where
  "tagType = \<lparr> t_name = ''tag'', t_type = ''object'', t_title = None,
               t_fields = None, t_of = None \<rparr>"

definition productWithTwoTagFields :: SchemaType where
  "productWithTwoTagFields =
     \<lparr> t_name = ''product'', t_type = ''document'', t_title = None,
       t_fields = Some [SchemaField ''reference'' (Some ''tag'') None None None
                          (Some [RefTarget ''tag'']),
                        SchemaField ''object'' (Some ''tag'') None None None None],
       t_of = None \<rparr>"

definition dedupSchema :: ParsedSchema where
  "dedupSchema = createParsedSchema [productWithTwoTagFields, tagType] isDocument"

definition documentNamed :: "string \<Rightarrow> SchemaType" where
  "documentNamed n = \<lparr> t_name = n, t_type = ''document'', t_title = None,
                       t_fields = None, t_of = None \<rparr>"





text \<open>
  The second scenario of the specification: \<open>product\<close> with a reference field
  \<open>categoryRef\<close> that names no target, and a document \<open>category\<close>; once as the
  canonical types and once as the raw entries of a schema.club file.
\<close>

definition productType :: SchemaType where
  "productType =
     \<lparr> t_name = ''product'', t_type = ''document'', t_title = None,
       t_fields = Some [SchemaField ''reference'' (Some ''categoryRef'') None None None None],
       t_of = None \<rparr>"

definition rawProduct :: RawType where
  "rawProduct =
     \<lparr> rt_name = Some ''product'', rt_type = Some ''document'', rt_title = None,
       rt_fields = Some [RawField (Some ''categoryRef'') (Some ''reference'') None None None None] \<rparr>"

definition rawCategory :: RawType where
  "rawCategory =
     \<lparr> rt_name = Some ''category'', rt_type = Some ''document'', rt_title = None,
       rt_fields = None \<rparr>"






definition anonymousFieldsType :: SchemaType where
  "anonymousFieldsType =
     \<lparr> t_name = ''post'', t_type = ''document'', t_title = None,
       t_fields =
         Some [SchemaField ''reference'' None None None None (Some [RefTarget ''author'']),
               SchemaField ''array'' None None None
                 (Some [SchemaField ''reference'' None None None None
                          (Some [RefTarget ''author''])])
                 None],
       t_of = None \<rparr>"

definition anonymousSchema :: ParsedSchema where
  "anonymousSchema =
     createParsedSchema [anonymousFieldsType, documentNamed ''author''] isDocument"




text \<open>
  Type and field names holding the separators of the edge key: the two reference fields
  of \<open>a\<close> lead to different targets under different labels.
\<close>

definition colonSchema :: ParsedSchema where
  "colonSchema =
     createParsedSchema
       [\<lparr> t_name = ''a'', t_type = ''document'', t_title = None,
          t_fields = Some [SchemaField ''reference'' (Some ''d'') None None None
                             (Some [RefTarget ''b:c'']),
                           SchemaField ''reference'' (Some ''c:d'') None None None
                             (Some [RefTarget ''b''])],
          t_of = None \<rparr>,
        documentNamed ''b:c'', documentNamed ''b'']
       isDocument"

section \<open>Facts about the string helpers and the two heuristics\<close>





lemma findPossibleReferenceTargets_filter:
  "findPossibleReferenceTargets s fieldName fieldTitle
     = filter (knownGraphType s) (candidateNames fieldName fieldTitle)"
  by (simp add: findPossibleReferenceTargets_def candidateNames_def knownGraphType_def Let_def
        split: option.splits)




section \<open>The resolver as a stream of candidate edges\<close>

text \<open>
  Each resolver method equals emitting its candidate edges, in order, through
  \<^verbatim>\<open>createEdgeIfNotExists\<close>; none of them touches the schema.
\<close>

lemma schema_createEdgeIfNotExists [simp]:
  "schema (createEdgeIfNotExists a b l st p c) = schema c"
  by (simp add: createEdgeIfNotExists_def)

lemma schema_emit [simp]: "schema (emit e c) = schema c"
  by (simp add: emit_def)

lemma schema_fold_emit [simp]: "schema (fold emit es c) = schema c"
  by (induction es arbitrary: c) simp_all

lemma emit_mkEdge:
  "createEdgeIfNotExists src tg l \<lparr> relationship = r, xlabel = l \<rparr> (leftPort fid) c
     = emit (mkEdge src tg l r fid) c"
  by (simp add: emit_def mkEdge_def)

lemma fold_explicit_targets:
  "fold (\<lambda>target c.
           if target_type target \<in> allTypeNames (schema c) then
             (case find (\<lambda>t. t_name t = target_type target) (types (schema c)) of
                Some targetSchema \<Rightarrow>
                  if isGraphType targetSchema then
                    createEdgeIfNotExists src (target_type target) l
                      \<lparr> relationship = r, xlabel = l \<rparr> (leftPort fid) c
                  else c
              | None \<Rightarrow> c)
           else c) tgs c
   = fold emit (map (\<lambda>tg. mkEdge src (target_type tg) l r fid)
                    (filter (\<lambda>tg. knownGraphType (schema c) (target_type tg)) tgs)) c"
proof (induction tgs arbitrary: c)
  case Nil
  show ?case by simp
next
  case (Cons tg tgs)
  show ?case
    by (simp add: Cons.IH knownGraphType_def emit_mkEdge split: option.splits)
qed

lemma fold_inferred_targets:
  "fold (\<lambda>targetType c.
           createEdgeIfNotExists src targetType l \<lparr> relationship = r, xlabel = l \<rparr>
             (leftPort fid) c) ns c
   = fold emit (map (\<lambda>n. mkEdge src n l r fid) ns) c"
  by (induction ns arbitrary: c) (simp_all add: emit_mkEdge)

lemma fold_single: "fold f [x] c = f x c"
  by simp

lemma processArrayItemForEdges_emit:
  "processArrayItemForEdges src fid item c
     = fold emit (arrayItemCandidates (schema c) src fid item) c"
  unfolding processArrayItemForEdges_def arrayItemCandidates_def Let_def
  by (simp add: fold_explicit_targets fold_inferred_targets emit_mkEdge fold_single
        del: fold.simps(2) filter.simps(2) split: option.splits list.splits)

lemma schema_processArrayItemForEdges [simp]:
  "schema (processArrayItemForEdges src fid item c) = schema c"
  by (simp add: processArrayItemForEdges_emit)

lemma fold_array_items:
  "fold (\<lambda>itemType c. processArrayItemForEdges src fid itemType c) items c
     = fold emit (concat (map (arrayItemCandidates (schema c) src fid) items)) c"
  by (induction items arbitrary: c) (simp_all add: processArrayItemForEdges_emit)

lemma processFieldForEdges_emit:
  "processFieldForEdges src fid field c
     = fold emit (fieldCandidates (schema c) src fid field) c"
  unfolding processFieldForEdges_def fieldCandidates_def Let_def
  by (simp add: fold_explicit_targets fold_inferred_targets emit_mkEdge fold_array_items
        fold_single del: fold.simps(2) filter.simps(2) split: option.splits list.splits)

lemma schema_processFieldForEdges [simp]:
  "schema (processFieldForEdges src fid field c) = schema c"
  by (simp add: processFieldForEdges_emit)

lemma fold_fields:
  "fold (\<lambda>field c.
           (case f_name field of
              None \<Rightarrow> c
            | Some n \<Rightarrow> if n = [] then c else processFieldForEdges tn n field c)) fs c
   = fold emit (concat (map (\<lambda>field.
                         (case f_name field of
                            None \<Rightarrow> []
                          | Some n \<Rightarrow>
                              if n = [] then [] else fieldCandidates (schema c) tn n field))
                      fs)) c"
  by (induction fs arbitrary: c)
     (simp_all add: processFieldForEdges_emit split: option.splits cong: option.case_cong if_cong)

lemma createEdges_emit:
  "createEdges ty c = fold emit (typeCandidates (schema c) ty) c"
  unfolding createEdges_def typeCandidates_def
  by (simp add: fold_fields split: option.splits)

lemma schema_createEdges [simp]: "schema (createEdges ty c) = schema c"
  by (simp add: createEdges_emit)

lemma fold_types_edges:
  "fold (\<lambda>ty c. if isGraphType ty then createEdges ty c else c) tys c
     = fold emit (concat (map (typeCandidates (schema c)) (filter isGraphType tys))) c"
  by (induction tys arbitrary: c) (simp_all add: createEdges_emit)


lemma createdEdges_fold_emit:
  "createdEdges (fold emit es c) = createdEdges c \<union> keyOf ` set es"
  by (induction es arbitrary: c)
     (auto simp: emit_def keyOf_def createEdgeIfNotExists_def)

lemma edges_fold_emit:
  "edges (graph (fold emit es c)) = edges (graph c) @ keepFirst (createdEdges c) es"
proof (induction es arbitrary: c)
  case Nil
  show ?case by simp
next
  case (Cons e es)
  show ?case
    by (simp add: Cons.IH) (simp add: emit_def keyOf_def createEdgeIfNotExists_def)
qed






lemma keepFirst_covers:
  "c \<in> set es \<Longrightarrow> keyOf c \<in> seen \<or> keyOf c \<in> keyOf ` set (keepFirst seen es)"
proof (induction es arbitrary: seen)
  case Nil
  then show ?case by simp
next
  case (Cons x es)
  show ?case
  proof (cases "c = x")
    case True
    then show ?thesis by simp
  next
    case False
    with Cons.prems have mem: "c \<in> set es" by simp
    show ?thesis
    proof (cases "keyOf x \<in> seen")
      case True
      with Cons.IH [OF mem, of seen] show ?thesis by simp
    next
      case False
      with Cons.IH [OF mem, of "insert (keyOf x) seen"] show ?thesis by auto
    qed
  qed
qed

lemma createNode_frame [simp]:
  "schema (createNode ty c) = schema c"
  "createdEdges (createNode ty c) = createdEdges c"
  "edges (graph (createNode ty c)) = edges (graph c)"
  by (simp_all add: createNode_def Let_def)

lemma fold_createNode_frame [simp]:
  "schema (fold (\<lambda>ty c. if isGraphType ty then createNode ty c else c) tys c) = schema c"
  "createdEdges (fold (\<lambda>ty c. if isGraphType ty then createNode ty c else c) tys c)
     = createdEdges c"
  "edges (graph (fold (\<lambda>ty c. if isGraphType ty then createNode ty c else c) tys c))
     = edges (graph c)"
  by (induction tys arbitrary: c) simp_all

lemma edges_convert:
  "edges (graph (convert c))
     = edges (graph c) @ keepFirst (createdEdges c) (candidateEdges (schema c))"
  by (simp add: convert_def Let_def fold_types_edges edges_fold_emit candidateEdges_def)

lemma edges_convert_new:
  "edges (graph (convert (newGraphConverter s))) = keepFirst {} (candidateEdges s)"
  by (simp add: edges_convert) (simp add: newGraphConverter_def)

section \<open>Facts about the candidate edges\<close>

text \<open>
  Where a candidate edge starts and where it leads: its source is the type being
  resolved, its port the field being resolved, and its target the name of a type of the
  schema; a reference field only leads to known document and object types.
\<close>

lemma keepFirst_subset: "set (keepFirst seen es) \<subseteq> set es"
  by (induction es arbitrary: seen) auto


lemma schema_convert: "schema (convert c) = schema c"
  by (simp add: convert_def Let_def fold_types_edges)

lemma target_mkEdge [simp]: "e_target (mkEdge src tg l r fid) = tg"
  by (simp add: mkEdge_def)





lemma source_of_arrayItemCandidates:
  "list_all (\<lambda>e. e_source e = src \<and> e_sourcePort e = leftPort fid)
     (arrayItemCandidates s src fid item)"
  by (simp add: arrayItemCandidates_def mkEdge_def list.pred_map comp_def list.pred_True
        split: option.splits list.splits)

lemma source_of_fieldCandidates:
  "list_all (\<lambda>e. e_source e = src \<and> e_sourcePort e = leftPort fid)
     (fieldCandidates s src fid field)"
  by (simp add: fieldCandidates_def mkEdge_def list.pred_map comp_def list.pred_True
        list_all_iff [of _ "concat _"] source_of_arrayItemCandidates [unfolded list_all_iff]
        split: option.splits list.splits)

lemma candidateEdges_origin:
  assumes "e \<in> set (candidateEdges s)"
  shows "\<exists>ty \<in> set (types s). \<exists>fs. t_fields ty = Some fs \<and>
           (\<exists>f \<in> set fs. \<exists>n. f_name f = Some n \<and> n \<noteq> [] \<and>
              e_source e = t_name ty \<and> e_sourcePort e = leftPort n)"
proof -
  from assms obtain ty where ty: "ty \<in> set (types s)" and e: "e \<in> set (typeCandidates s ty)"
    by (auto simp: candidateEdges_def)
  from e obtain fs where fs: "t_fields ty = Some fs"
    by (cases "t_fields ty") (auto simp: typeCandidates_def)
  with e obtain f where f: "f \<in> set fs"
    and ef: "e \<in> set (case f_name f of None \<Rightarrow> []
               | Some n \<Rightarrow> if n = [] then [] else fieldCandidates s (t_name ty) n f)"
    by (auto simp: typeCandidates_def)
  from ef obtain n where n: "f_name f = Some n" "n \<noteq> []"
    and en: "e \<in> set (fieldCandidates s (t_name ty) n f)"
    by (cases "f_name f") (auto split: if_splits)
  from en source_of_fieldCandidates [of "t_name ty" n s f]
  have "e_source e = t_name ty \<and> e_sourcePort e = leftPort n"
    by (simp add: list_all_iff)
  with ty fs f n show ?thesis by blast
qed

lemma knownGraphType_is_type_name: "knownGraphType s n \<Longrightarrow> n \<in> t_name ` set (types s)"
  by (auto simp: knownGraphType_def find_Some_iff split: option.splits)

lemma find_object_is_type: "find P ts = Some ot \<Longrightarrow> t_name ot \<in> t_name ` set ts"
  by (auto simp: find_Some_iff)

lemma list_all_filter: "(\<And>x. Q x \<Longrightarrow> P x) \<Longrightarrow> list_all P (filter Q xs)"
  by (induction xs) auto

lemma explicit_targets_are_type_names:
  "list_all (\<lambda>tg. target_type tg \<in> t_name ` set (types s))
     (filter (\<lambda>tg. knownGraphType s (target_type tg)) tgs)"
  by (rule list_all_filter) (rule knownGraphType_is_type_name)

lemma inferred_targets_are_type_names:
  "list_all (\<lambda>n. n \<in> t_name ` set (types s)) (findPossibleReferenceTargets s fid ti)"
  unfolding findPossibleReferenceTargets_filter
  by (rule list_all_filter) (rule knownGraphType_is_type_name)

lemma target_of_arrayItemCandidates:
  "list_all (\<lambda>e. e_target e \<in> t_name ` set (types s)) (arrayItemCandidates s src fid item)"
  using explicit_targets_are_type_names [of s] inferred_targets_are_type_names [of s]
  by (simp add: arrayItemCandidates_def mkEdge_def list.pred_map comp_def
        find_object_is_type knownGraphType_is_type_name split: option.splits list.splits)

lemma target_of_fieldCandidates:
  "list_all (\<lambda>e. e_target e \<in> t_name ` set (types s)) (fieldCandidates s src fid field)"
  using explicit_targets_are_type_names [of s] inferred_targets_are_type_names [of s]
  by (simp add: fieldCandidates_def mkEdge_def list.pred_map comp_def
        find_object_is_type knownGraphType_is_type_name list_all_iff [of _ "concat _"]
        target_of_arrayItemCandidates [unfolded list_all_iff]
        split: option.splits list.splits)

lemma candidateEdges_names:
  assumes "e \<in> set (candidateEdges s)"
  shows "e_source e \<in> t_name ` set (types s) \<and> e_target e \<in> t_name ` set (types s)"
proof -
  from assms obtain ty where ty: "ty \<in> set (types s)" and e: "e \<in> set (typeCandidates s ty)"
    by (auto simp: candidateEdges_def)
  from e obtain fs where fs: "t_fields ty = Some fs"
    by (cases "t_fields ty") (auto simp: typeCandidates_def)
  with e obtain f where f: "f \<in> set fs"
    and ef: "e \<in> set (case f_name f of None \<Rightarrow> []
               | Some n \<Rightarrow> if n = [] then [] else fieldCandidates s (t_name ty) n f)"
    by (auto simp: typeCandidates_def)
  from ef obtain n where en: "e \<in> set (fieldCandidates s (t_name ty) n f)"
    by (cases "f_name f") (auto split: if_splits)
  from en source_of_fieldCandidates [of "t_name ty" n s f]
  have "e_source e = t_name ty" by (simp add: list_all_iff)
  moreover from en target_of_fieldCandidates [of s "t_name ty" n f]
  have "e_target e \<in> t_name ` set (types s)" by (simp add: list_all_iff)
  ultimately show ?thesis using ty by simp
qed

section \<open>Edge deduplication\<close>

text \<open>
  An evaluated example: the two fields of \<open>product\<close> are both named \<open>tag\<close>, one a
  reference and one an embedded object, so both candidates carry the key
  \<open>(product, tag, tag)\<close> and only the reference, met first, is emitted.
\<close>

lemma dedup_candidates:
  "candidateEdges dedupSchema =
     [mkEdge ''product'' ''tag'' ''tag'' DIRECT_REFERENCE ''tag'',
      mkEdge ''product'' ''tag'' ''tag'' OBJECT_COMPOSITION ''tag'']"
  by (simp add: candidateEdges_def dedupSchema_def createParsedSchema_def typeCandidates_def
        productWithTwoTagFields_def tagType_def isGraphType_def fieldCandidates_def
        knownGraphType_def)

lemma dedup_edges:
  "edges (graph (convert (newGraphConverter dedupSchema))) =
     [mkEdge ''product'' ''tag'' ''tag'' DIRECT_REFERENCE ''tag'']"
  by (simp add: edges_convert_new dedup_candidates) (simp add: keyOf_def mkEdge_def)



section \<open>The edge key as a string\<close>

text \<open>
  The key of an edge is the string \<open>source->target:label\<close>. It identifies the triple
  when no type name holds \<open>-\<close> or \<open>:\<close>, and then the first candidate of every triple
  is emitted. With such characters in names two different triples can share a key, and
  the later edge is dropped.
\<close>

lemma first_separator:
  "c \<notin> set xs \<Longrightarrow> c \<notin> set ys \<Longrightarrow> xs @ c # r1 = ys @ c # r2 \<Longrightarrow> xs = ys \<and> r1 = r2"
proof (induction xs arbitrary: ys)
  case Nil
  then show ?case by (cases ys) auto
next
  case (Cons x xs)
  then show ?case by (cases ys) auto
qed

lemma edgeKey_inject:
  assumes "CHR ''-'' \<notin> set s1" "CHR ''-'' \<notin> set s2"
    and "CHR '':'' \<notin> set t1" "CHR '':'' \<notin> set t2"
    and "edgeKey s1 t1 l1 = edgeKey s2 t2 l2"
  shows "s1 = s2 \<and> t1 = t2 \<and> l1 = l2"
proof -
  from assms(5) have "s1 @ CHR ''-'' # (CHR ''>'' # t1 @ CHR '':'' # l1)
      = s2 @ CHR ''-'' # (CHR ''>'' # t2 @ CHR '':'' # l2)"
    by (simp add: edgeKey_def)
  from first_separator [OF assms(1,2) this]
  have s: "s1 = s2" and "t1 @ CHR '':'' # l1 = t2 @ CHR '':'' # l2" by simp_all
  from first_separator [OF assms(3,4) this(2)] s show ?thesis by simp
qed

lemma first_candidate_is_kept:
  assumes names: "\<forall>ty \<in> set (types s).
                    CHR ''-'' \<notin> set (t_name ty) \<and> CHR '':'' \<notin> set (t_name ty)"
    and c: "c \<in> set (candidateEdges s)"
  shows "\<exists>e \<in> set (edges (graph (convert (newGraphConverter s)))).
           edgeTriple e = edgeTriple c"
proof -
  from keepFirst_covers [OF c, of "{}"] obtain e where
    e: "e \<in> set (keepFirst {} (candidateEdges s))" and k: "keyOf e = keyOf c"
    by auto
  from e keepFirst_subset have ec: "e \<in> set (candidateEdges s)" by blast
  from candidateEdges_names [OF ec] candidateEdges_names [OF c] names
  have "CHR ''-'' \<notin> set (e_source e)" "CHR ''-'' \<notin> set (e_source c)"
       "CHR '':'' \<notin> set (e_target e)" "CHR '':'' \<notin> set (e_target c)"
    by auto
  from edgeKey_inject [OF this] k have "edgeTriple e = edgeTriple c"
    by (simp add: keyOf_def edgeTriple_def)
  with e show ?thesis by (auto simp: edges_convert_new)
qed

lemma edgeKey_collision:
  "candidateEdges colonSchema =
     [mkEdge ''a'' ''b:c'' ''d'' DIRECT_REFERENCE ''d'',
      mkEdge ''a'' ''b'' ''c:d'' DIRECT_REFERENCE ''c:d''] \<and>
   edgeKey ''a'' ''b:c'' ''d'' = edgeKey ''a'' ''b'' ''c:d'' \<and>
   edges (graph (convert (newGraphConverter colonSchema))) =
     [mkEdge ''a'' ''b:c'' ''d'' DIRECT_REFERENCE ''d'']"
  by code_simp

section \<open>The inference heuristic of the resolver\<close>







section \<open>The eager inference against the resolver\<close>




section \<open>The scenario of an untargeted reference field\<close>

text \<open>
  Claim C4, as amended. Given to the converter as canonical types, the schema made of
  the document \<open>product\<close> with the untargeted reference field \<open>categoryRef\<close> and of
  the document \<open>category\<close> yields exactly one edge, from \<open>product\<close> to \<open>category\<close>,
  labelled \<open>categoryRef?\<close>, an inferred reference. Read through the schema.club
  normalizer, the same entries yield exactly one edge too, but the normalizer has already
  written the inferred target \<open>category\<close> into the field, so the edge is labelled
  \<open>categoryRef\<close> and is a direct reference.
\<close>

theorem categoryRef_scenario:
  "edges (graph (convert (newGraphConverter
      (createParsedSchema [productType, documentNamed ''category''] isDocument))))
     = [mkEdge ''product'' ''category'' ''categoryRef?'' INFERRED_REFERENCE ''categoryRef''] \<and>
   transformSchemaClubField
      (RawField (Some ''categoryRef'') (Some ''reference'') None None None None)
     = Some (SchemaField ''reference'' (Some ''categoryRef'') None None None
               (Some [RefTarget ''category''])) \<and>
   edges (graph (convert (newGraphConverter (transformSchemaClub [rawProduct, rawCategory]))))
     = [mkEdge ''product'' ''category'' ''categoryRef'' DIRECT_REFERENCE ''categoryRef'']"
  by code_simp

theorem categoryRef_scenario_witness:
  "edges (graph (convert (newGraphConverter
      (createParsedSchema [productType, documentNamed ''category''] isDocument))))
     = [mkEdge ''product'' ''category'' ''categoryRef?'' INFERRED_REFERENCE ''categoryRef'']"
  using categoryRef_scenario by (rule conjunct1)

text \<open>
  Through the normalizer the graph does not hold the edge the claim describes.
\<close>

theorem categoryRef_scenario_counterexample:
  "edges (graph (convert (newGraphConverter (transformSchemaClub [rawProduct, rawCategory]))))
     \<noteq> [mkEdge ''product'' ''category'' ''categoryRef?'' INFERRED_REFERENCE ''categoryRef'']"
  by code_simp

section \<open>The registry and duplicate names\<close>





section \<open>Unresolvable fields\<close>










section \<open>The schema is only read\<close>

text \<open>
  Claim C9. The schema the converter was built with is the schema it holds after
  \<^verbatim>\<open>convert\<close>, and after each of the methods \<^verbatim>\<open>convert\<close> calls: only the graph
  and the set of edge keys change.
\<close>

theorem convert_preserves_schema:
  "schema (convert c) = schema c \<and>
   schema (createNode ty c) = schema c \<and>
   schema (createEdges ty c) = schema c \<and>
   schema (processFieldForEdges src fid field c) = schema c \<and>
   schema (processArrayItemForEdges src fid field c) = schema c \<and>
   schema (createEdgeIfNotExists src tg l st p c) = schema c"
  by (simp add: schema_convert)

theorem convert_preserves_schema_witness:
  "schema (convert (newGraphConverter dedupSchema)) = dedupSchema \<and>
   edges (graph (convert (newGraphConverter dedupSchema))) \<noteq> []"
proof -
  have "schema (newGraphConverter dedupSchema) = dedupSchema"
    by (simp add: newGraphConverter_def)
  with convert_preserves_schema [of "newGraphConverter dedupSchema"]
  have "schema (convert (newGraphConverter dedupSchema)) = dedupSchema"
    by simp
  then show ?thesis by (simp add: dedup_edges)
qed

section \<open>Unnamed fields\<close>

lemma createEdges_fields_append:
  "createEdges (ty\<lparr>t_fields := Some (pre @ post)\<rparr>) c
     = createEdges (ty\<lparr>t_fields := Some post\<rparr>) (createEdges (ty\<lparr>t_fields := Some pre\<rparr>) c)"
  by (simp add: createEdges_def cong: option.case_cong if_cong)

lemma createEdges_unnamed_head:
  "f_name field = None \<or> f_name field = Some [] \<Longrightarrow>
   createEdges (ty\<lparr>t_fields := Some (field # post)\<rparr>) c
     = createEdges (ty\<lparr>t_fields := Some post\<rparr>) c"
  by (auto simp: createEdges_def cong: option.case_cong if_cong)

text \<open>
  Claim C10. A top-level field without a name (absent, or the empty string) adds nothing:
  \<^verbatim>\<open>createEdges\<close> gives the same converter with or without it, whatever the field
  is. Every edge of a finished graph starts at a field that has a name: its source is a
  type of the schema and its port is the left cell of one of that type's named fields.
\<close>

theorem createEdges_skips_unnamed_fields:
  "(f_name field = None \<or> f_name field = Some [] \<longrightarrow>
      createEdges (ty\<lparr>t_fields := Some (pre @ field # post)\<rparr>) c
        = createEdges (ty\<lparr>t_fields := Some (pre @ post)\<rparr>) c) \<and>
   (\<forall>e \<in> set (edges (graph (convert (newGraphConverter s)))).
      \<exists>ty \<in> set (types s). \<exists>fs. t_fields ty = Some fs \<and>
        (\<exists>f \<in> set fs. \<exists>n. f_name f = Some n \<and> n \<noteq> [] \<and>
           e_source e = t_name ty \<and> e_sourcePort e = leftPort n))"
proof (intro conjI impI ballI)
  assume "f_name field = None \<or> f_name field = Some []"
  then show "createEdges (ty\<lparr>t_fields := Some (pre @ field # post)\<rparr>) c
        = createEdges (ty\<lparr>t_fields := Some (pre @ post)\<rparr>) c"
    by (simp add: createEdges_fields_append [where pre = pre] createEdges_unnamed_head)
next
  fix e
  assume "e \<in> set (edges (graph (convert (newGraphConverter s))))"
  then have "e \<in> set (candidateEdges s)"
    using keepFirst_subset [of "{}" "candidateEdges s"] by (auto simp: edges_convert_new)
  then show "\<exists>ty \<in> set (types s). \<exists>fs. t_fields ty = Some fs \<and>
        (\<exists>f \<in> set fs. \<exists>n. f_name f = Some n \<and> n \<noteq> [] \<and>
           e_source e = t_name ty \<and> e_sourcePort e = leftPort n)"
    by (rule candidateEdges_origin)
qed

lemma anonymous_known: "knownGraphType anonymousSchema ''author''"
  by code_simp

lemma anonymous_edges: "edges (graph (convert (newGraphConverter anonymousSchema))) = []"
  by code_simp

theorem createEdges_skips_unnamed_fields_witness:
  "knownGraphType anonymousSchema ''author'' \<and>
   createEdges anonymousFieldsType (newGraphConverter anonymousSchema)
     = createEdges (anonymousFieldsType\<lparr>t_fields := Some []\<rparr>) (newGraphConverter anonymousSchema) \<and>
   edges (graph (convert (newGraphConverter anonymousSchema))) = []"
proof -
  let ?f1 = "SchemaField ''reference'' None None None None (Some [RefTarget ''author''])"
  let ?f2 = "SchemaField ''array'' None None None
                 (Some [SchemaField ''reference'' None None None None
                          (Some [RefTarget ''author''])])
                 None"
  let ?c = "newGraphConverter anonymousSchema"
  have ty: "anonymousFieldsType = anonymousFieldsType\<lparr>t_fields := Some ([] @ ?f1 # [?f2])\<rparr>"
    by (simp add: anonymousFieldsType_def)
  from createEdges_skips_unnamed_fields
         [where field = ?f1 and ty = anonymousFieldsType and pre = "[]" and post = "[?f2]"
            and c = ?c]
  have one: "createEdges (anonymousFieldsType\<lparr>t_fields := Some ([] @ ?f1 # [?f2])\<rparr>) ?c
      = createEdges (anonymousFieldsType\<lparr>t_fields := Some [?f2]\<rparr>) ?c"
    by simp
  from createEdges_skips_unnamed_fields
         [where field = ?f2 and ty = anonymousFieldsType and pre = "[]" and post = "[]"
            and c = ?c]
  have two: "createEdges (anonymousFieldsType\<lparr>t_fields := Some [?f2]\<rparr>) ?c
      = createEdges (anonymousFieldsType\<lparr>t_fields := Some []\<rparr>) ?c"
    by simp
  from ty one two have "createEdges anonymousFieldsType ?c
      = createEdges (anonymousFieldsType\<lparr>t_fields := Some []\<rparr>) ?c"
    by simp
  with anonymous_known anonymous_edges show ?thesis by blast
qed

section \<open>Facts about the parse stage\<close>












lemma ParseFailure_inject [simp]: "ParseFailure a = ParseFailure b \<longleftrightarrow> a = b"
  by (simp add: ParseFailure_def)

lemma ParseFailure_not_UnrecognizedFormat [simp]:
  "ParseFailure a \<noteq> UnrecognizedFormat" "UnrecognizedFormat \<noteq> ParseFailure a"
  by (simp_all add: ParseFailure_def UnrecognizedFormat_def)

lemma TypeError_not_named [simp]:
  "TypeError k \<noteq> UnrecognizedFormat" "TypeError k \<noteq> ParseFailure a"
  "UnrecognizedFormat \<noteq> TypeError k" "ParseFailure a \<noteq> TypeError k"
  by (simp_all add: ParseFailure_def UnrecognizedFormat_def)

section \<open>The registry of a well-typed file\<close>

text \<open>
  On a root array whose entries conform to the interfaces, building the registry from the
  parsed values succeeds and gives the registry of the canonical types: the same types,
  and the same two sets of names.
\<close>

lemma getProperty_encodeType:
  "getProperty (encodeType t) ''name'' = Inr (JStr (t_name t))"
  "getProperty (encodeType t) ''type'' = Inr (JStr (t_type t))"
  by (simp_all add: getProperty_def encodeType_def)

lemma isDocument_any_encodeType: "isDocument_any (encodeType t) = Inr (isDocument t)"
  by (simp add: isDocument_any_def getProperty_encodeType isDocument_def)

lemma filterE_encodeType:
  "filterE isDocument_any (map encodeType ts) = Inr (map encodeType (filter isDocument ts))"
  by (induction ts) (simp_all add: isDocument_any_encodeType)

lemma mapE_encodeType:
  "mapE (\<lambda>t. getProperty t ''name'') (map encodeType ts) = Inr (map (\<lambda>t. JStr (t_name t)) ts)"
  by (induction ts) (simp_all add: getProperty_encodeType)

lemma createParsedSchema_any_encodeType:
  "createParsedSchema_any (map encodeType ts) isDocument_any =
     Inr \<lparr> any_types = map encodeType ts,
           any_documentTypes = JStr ` documentTypes (createParsedSchema ts isDocument),
           any_allTypeNames = JStr ` allTypeNames (createParsedSchema ts isDocument) \<rparr>"
  by (simp add: createParsedSchema_any_def filterE_encodeType mapE_encodeType
        createParsedSchema_def image_image)

section \<open>The unimplemented parser\<close>




section \<open>Errors of the schema.club parser\<close>








end
